theory Spec2Isabelle
  imports Complex_Main "HOL-Library.AList"
begin

section \<open>Conventions of the embedding\<close>

text \<open>
  The analytics engine of the portfolio management package is embedded function by
  function. Python floats are modelled as exact reals (\<^typ>\<open>real\<close>): rounding is outside
  the model. Where the numerical library would produce a non-finite value (\<open>nan\<close> or an
  infinity: a division by zero, the square root of a negative number, the variance of
  fewer than two observations) the model says so with \<open>None\<close> in the type \<open>npfloat\<close>.
  A Python exception is a value of \<open>error\<close>, returned as \<open>Inl\<close>.
  A Python \<open>dict\<close> is an association list in insertion order, read with \<^const>\<open>map_of\<close>
  and written with \<^const>\<open>AList.update\<close> (an existing key keeps its place, a new key goes
  to the end, as in Python).
\<close>

datatype error = ValueError | ZeroDivisionError | IndexError

type_synonym npfloat = "real option"

type_synonym ('k, 'v) dict = "('k \<times> 'v) list"

definition dict_get :: "('k, 'v) dict \<Rightarrow> 'k \<Rightarrow> 'v \<Rightarrow> 'v" where
  \<comment> \<open>\<open>d.get(k, default)\<close>\<close>
  "dict_get d k dflt = (case map_of d k of None \<Rightarrow> dflt | Some v \<Rightarrow> v)"

definition dict_update :: "('k, 'v) dict \<Rightarrow> ('k, 'v) dict \<Rightarrow> ('k, 'v) dict" where
  \<comment> \<open>\<open>d.update(other)\<close>\<close>
  "dict_update d other = fold (\<lambda>(k, v) acc. AList.update k v acc) other d"


section \<open>Stress testing: \<open>analytics/stress_testing.py\<close>\<close>

datatype ScenarioType = HISTORICAL | HYPOTHETICAL | CUSTOM

type_synonym date = "nat \<times> nat \<times> nat"

record Scenario =
  name :: string
  scenario_type :: ScenarioType
  description :: string
  equity_shock :: real
  rates_shock_bps :: real
  credit_spread_shock_bps :: real
  fx_shocks :: "(string, real) dict"
  commodity_shocks :: "(string, real) dict"
  volatility_shock :: real
  start_date :: "date option"
  end_date :: "date option"

record ScenarioResult =
  scenario :: Scenario
  portfolio_impact :: real
  equity_impact :: real
  fixed_income_impact :: real
  fx_impact :: real
  commodity_impact :: real
  position_impacts :: "(string, real) dict"
  risk_metrics_change :: "(string, real) dict"

definition mk_scenario ::
  "string \<Rightarrow> ScenarioType \<Rightarrow> string \<Rightarrow> real \<Rightarrow> real \<Rightarrow> real \<Rightarrow> (string, real) dict \<Rightarrow>
   (string, real) dict \<Rightarrow> real \<Rightarrow> date option \<Rightarrow> date option \<Rightarrow> Scenario" where
  \<comment> \<open>the dataclass constructor, every field given\<close>
  "mk_scenario n t d eq r cs fx cm vol sd ed =
     \<lparr>name = n, scenario_type = t, description = d, equity_shock = eq, rates_shock_bps = r,
      credit_spread_shock_bps = cs, fx_shocks = fx, commodity_shocks = cm,
      volatility_shock = vol, start_date = sd, end_date = ed\<rparr>"

definition HISTORICAL_SCENARIOS :: "(string, Scenario) dict" where
  "HISTORICAL_SCENARIOS =
   [(''GFC_2008'', mk_scenario ''Global Financial Crisis 2008'' HISTORICAL
       ''Sept-Nov 2008 financial crisis period'' (- 0.45) (- 200) 500 [] [] 60
       (Some (2008, 9, 15)) (Some (2008, 11, 20))),
    (''COVID_2020'', mk_scenario ''COVID Crash 2020'' HISTORICAL
       ''Feb-Mar 2020 pandemic crash'' (- 0.35) (- 150) 350 [] [] 65
       (Some (2020, 2, 19)) (Some (2020, 3, 23))),
    (''DOTCOM_2000'', mk_scenario ''Dot-Com Crash 2000'' HISTORICAL
       ''Tech bubble burst 2000-2002'' (- 0.50) (- 300) 200 [] [] 30
       (Some (2000, 3, 10)) (Some (2002, 10, 9))),
    (''INFLATION_2022'', mk_scenario ''Inflation Spike 2022'' HISTORICAL
       ''2022 inflation and rate hiking cycle'' (- 0.25) 300 150 [] [] 15
       (Some (2022, 1, 1)) (Some (2022, 10, 12))),
    (''FED_TAPER_2013'', mk_scenario ''Taper Tantrum 2013'' HISTORICAL
       ''Fed tightening announcement shock'' (- 0.08) 100 50 [] [] 8
       (Some (2013, 5, 22)) (Some (2013, 8, 30))),
    (''OIL_CRASH_2014'', mk_scenario ''Oil Price Crash 2014-2015'' HISTORICAL
       ''Oil price collapse from $100+ to below $30'' (- 0.10) (- 50) 200 []
       [(''OIL'', - 0.70), (''NATURAL_GAS'', - 0.30)] 0
       (Some (2014, 6, 20)) (Some (2016, 2, 11))),
    (''CHINA_DEVALUATION_2015'', mk_scenario ''China Devaluation 2015'' HISTORICAL
       ''China CNY devaluation and growth concerns'' (- 0.12) (- 25) 100
       [(''USD/CNY'', 0.05), (''USD/EUR'', - 0.03)] [] 0
       (Some (2015, 8, 11)) (Some (2016, 2, 11)))]"

definition HYPOTHETICAL_SCENARIOS :: "(string, Scenario) dict" where
  "HYPOTHETICAL_SCENARIOS =
   [(''RATES_UP_200'', mk_scenario ''Rates +200bps'' HYPOTHETICAL
       ''Parallel shift up in rates by 200 basis points'' (- 0.10) 200 50 [] [] 0 None None),
    (''RATES_DOWN_200'', mk_scenario ''Rates -200bps'' HYPOTHETICAL
       ''Parallel shift down in rates by 200 basis points'' 0.05 (- 200) (- 25) [] [] 0
       None None),
    (''EQUITY_VOL_40'', mk_scenario ''Equity Vol +40'' HYPOTHETICAL
       ''VIX spike to 40'' (- 0.15) 0 100 [] [] 40 None None),
    (''EQUITY_VOL_80'', mk_scenario ''Equity Vol +80'' HYPOTHETICAL
       ''VIX spike to 80 (crisis level)'' (- 0.30) 0 250 [] [] 80 None None),
    (''EQUITY_VOL_120'', mk_scenario ''Equity Vol +120'' HYPOTHETICAL
       ''VIX spike to 120 (extreme crisis)'' (- 0.45) 0 500 [] [] 120 None None),
    (''CREDIT_CRISIS'', mk_scenario ''Credit Crisis'' HYPOTHETICAL
       ''Major credit spread widening'' (- 0.20) (- 100) 400 [] [] 0 None None),
    (''STAGFLATION'', mk_scenario ''Stagflation'' HYPOTHETICAL
       ''High inflation with weak growth'' (- 0.25) 150 200 []
       [(''OIL'', 0.40), (''GOLD'', 0.20)] 0 None None),
    (''USD_CRISIS'', mk_scenario ''USD Crisis'' HYPOTHETICAL
       ''Major USD weakness'' (- 0.10) 50 0
       [(''USD/EUR'', - 0.15), (''USD/JPY'', - 0.10), (''USD/GBP'', - 0.12)] [] 0 None None),
    (''EM_CONTAGION'', mk_scenario ''EM Contagion'' HYPOTHETICAL
       ''Emerging market crisis with contagion'' (- 0.20) (- 50) 300
       [(''USD/BRL'', 0.25), (''USD/MXN'', 0.20), (''USD/ZAR'', 0.30)] [] 0 None None),
    (''COMMODITY_CRASH'', mk_scenario ''Commodity Crash'' HYPOTHETICAL
       ''Broad commodity price collapse'' (- 0.15) (- 100) 0 []
       [(''OIL'', - 0.40), (''COPPER'', - 0.30), (''IRON_ORE'', - 0.35)] 0 None None)]"

text \<open>The engine's only state is its catalog \<open>self.scenarios\<close>.\<close>

record StressTestEngine =
  scenarios :: "(string, Scenario) dict"

definition load_default_scenarios :: "StressTestEngine \<Rightarrow> StressTestEngine" where
  "load_default_scenarios e =
     (let e1 = e\<lparr>scenarios := dict_update (scenarios e) HISTORICAL_SCENARIOS\<rparr>
      in e1\<lparr>scenarios := dict_update (scenarios e1) HYPOTHETICAL_SCENARIOS\<rparr>)"

definition init_engine :: StressTestEngine where
  \<comment> \<open>\<open>StressTestEngine.__init__\<close>\<close>
  "init_engine = load_default_scenarios \<lparr>scenarios = []\<rparr>"

definition add_scenario :: "StressTestEngine \<Rightarrow> string \<Rightarrow> Scenario \<Rightarrow> StressTestEngine" where
  \<comment> \<open>\<open>self.scenarios[key] = scenario\<close>\<close>
  "add_scenario e key sc = e\<lparr>scenarios := AList.update key sc (scenarios e)\<rparr>"

definition get_scenario :: "StressTestEngine \<Rightarrow> string \<Rightarrow> Scenario option" where
  \<comment> \<open>\<open>self.scenarios.get(key)\<close>\<close>
  "get_scenario e key = map_of (scenarios e) key"

definition list_scenarios :: "StressTestEngine \<Rightarrow> ScenarioType option \<Rightarrow> string list" where
  "list_scenarios e st =
     (case st of
        None \<Rightarrow> map fst (scenarios e)
      | Some t \<Rightarrow> map fst (filter (\<lambda>(k, v). scenario_type v = t) (scenarios e)))"

text \<open>
  The four impact calculations share one loop shape: walk the items of the exposure dict,
  store each impact under its key and add it to the running total, which starts at \<open>0.0\<close>.
\<close>

fun impact_loop ::
  "('a \<Rightarrow> real) \<Rightarrow> (string, 'a) dict \<Rightarrow> real \<times> (string, real) dict \<Rightarrow>
   real \<times> (string, real) dict" where
  "impact_loop f [] acc = acc"
| "impact_loop f ((symbol, x) # rest) (total_impact, impacts) =
     impact_loop f rest (total_impact + f x, AList.update symbol (f x) impacts)"

definition calculate_equity_impact ::
  "(string, real \<times> real) dict \<Rightarrow> real \<Rightarrow> real \<times> (string, real) dict" where
  "calculate_equity_impact positions shock =
     impact_loop (\<lambda>(val, beta). val * beta * shock) positions (0, [])"

definition calculate_fixed_income_impact ::
  "(string, real \<times> real \<times> real) dict \<Rightarrow> real \<Rightarrow> real \<Rightarrow> real \<times> (string, real) dict" where
  "calculate_fixed_income_impact positions rates_bps credit_bps =
     (let total_shock_decimal = (rates_bps + credit_bps) / 10000
      in impact_loop
           (\<lambda>(val, duration, convexity).
              - duration * total_shock_decimal * val
              + 0.5 * convexity * total_shock_decimal\<^sup>2 * val)
           positions (0, []))"

fun exposure_loop ::
  "(string, real) dict \<Rightarrow> (string, real) dict \<Rightarrow> real \<times> (string, real) dict \<Rightarrow>
   real \<times> (string, real) dict" where
  "exposure_loop shocks [] acc = acc"
| "exposure_loop shocks ((k, exposure) # rest) (total_impact, impacts) =
     (let impact = exposure * dict_get shocks k 0
      in exposure_loop shocks rest (total_impact + impact, AList.update k impact impacts))"

definition calculate_fx_impact ::
  "(string, real) dict \<Rightarrow> (string, real) dict \<Rightarrow> real \<times> (string, real) dict" where
  "calculate_fx_impact exposures shocks = exposure_loop shocks exposures (0, [])"

definition calculate_commodity_impact ::
  "(string, real) dict \<Rightarrow> (string, real) dict \<Rightarrow> real \<times> (string, real) dict" where
  "calculate_commodity_impact exposures shocks = exposure_loop shocks exposures (0, [])"

definition truthy_dict :: "('k, 'v) dict option \<Rightarrow> bool" where
  \<comment> \<open>Python truth value of an optional dict: \<open>None\<close> and \<open>{}\<close> are false\<close>
  "truthy_dict d = (case d of None \<Rightarrow> False | Some kvs \<Rightarrow> kvs \<noteq> [])"

definition run_scenario ::
  "Scenario \<Rightarrow> (string, real \<times> real) dict option \<Rightarrow> (string, real \<times> real \<times> real) dict option \<Rightarrow>
   (string, real) dict option \<Rightarrow> (string, real) dict option \<Rightarrow> ScenarioResult" where
  "run_scenario sc equity_positions fixed_income_positions fx_exposures commodity_exposures =
     (let (eq_imp, pos1) =
            (if truthy_dict equity_positions
             then (let (t, ps) = calculate_equity_impact (the equity_positions) (equity_shock sc)
                   in (t, dict_update [] ps))
             else (0, []));
          (fi_imp, pos2) =
            (if truthy_dict fixed_income_positions
             then (let (t, ps) = calculate_fixed_income_impact (the fixed_income_positions)
                                   (rates_shock_bps sc) (credit_spread_shock_bps sc)
                   in (t, dict_update pos1 ps))
             else (0, pos1));
          (fx_imp, pos3) =
            (if truthy_dict fx_exposures \<and> fx_shocks sc \<noteq> []
             then (let (t, ps) = calculate_fx_impact (the fx_exposures) (fx_shocks sc)
                   in (t, dict_update pos2 ps))
             else (0, pos2));
          (cm_imp, pos4) =
            (if truthy_dict commodity_exposures \<and> commodity_shocks sc \<noteq> []
             then (let (t, ps) = calculate_commodity_impact (the commodity_exposures)
                                   (commodity_shocks sc)
                   in (t, dict_update pos3 ps))
             else (0, pos3))
      in \<lparr>scenario = sc, portfolio_impact = eq_imp + fi_imp + fx_imp + cm_imp,
          equity_impact = eq_imp, fixed_income_impact = fi_imp, fx_impact = fx_imp,
          commodity_impact = cm_imp, position_impacts = pos4, risk_metrics_change = []\<rparr>)"

definition custom_scenario :: Scenario where
  \<comment> \<open>the scenario of \<open>test_add_custom_scenario\<close>; unset fields take the dataclass defaults\<close>
  "custom_scenario = mk_scenario ''Custom Scenario'' CUSTOM [] (- 0.30) 0 0 [] [] 0 None None"

section \<open>Attribution: \<open>analytics/attribution.py\<close>\<close>

record SectorAttribution =
  sector :: string
  portfolio_weight :: real
  benchmark_weight :: real
  portfolio_return :: real
  benchmark_return :: real
  allocation_effect :: real
  selection_effect :: real
  interaction_effect :: real
  total_effect :: real

definition all_sectors :: "(string, real) dict \<Rightarrow> (string, real) dict \<Rightarrow> string list" where
  \<comment> \<open>\<open>set(portfolio_weights.keys()) | set(benchmark_weights.keys())\<close>, in one iteration order
      (Python's order of a set of strings is not fixed)\<close>
  "all_sectors pw bw = remdups (map fst pw @ map fst bw)"

definition total_benchmark_return ::
  "(string, real) dict \<Rightarrow> (string, real) dict \<Rightarrow> (string, real) dict \<Rightarrow> real" where
  "total_benchmark_return pw bw br =
     sum_list (map (\<lambda>s. dict_get bw s 0 * dict_get br s 0) (all_sectors pw bw))"

definition calculate_brinson_fachler_attribution ::
  "(string, real) dict \<Rightarrow> (string, real) dict \<Rightarrow> (string, real) dict \<Rightarrow> (string, real) dict \<Rightarrow>
   SectorAttribution list" where
  "calculate_brinson_fachler_attribution portfolio_weights benchmark_weights
       portfolio_returns benchmark_returns =
     (let tbr = total_benchmark_return portfolio_weights benchmark_weights benchmark_returns
      in map (\<lambda>s.
           let pw = dict_get portfolio_weights s 0;
               bw = dict_get benchmark_weights s 0;
               pr = dict_get portfolio_returns s 0;
               br = dict_get benchmark_returns s 0;
               allocation = (pw - bw) * (br - tbr);
               selection = bw * (pr - br);
               interaction = (pw - bw) * (pr - br);
               total = allocation + selection + interaction
           in \<lparr>sector = s, portfolio_weight = pw, benchmark_weight = bw,
               portfolio_return = pr, benchmark_return = br, allocation_effect = allocation,
               selection_effect = selection, interaction_effect = interaction,
               total_effect = total\<rparr>)
         (all_sectors portfolio_weights benchmark_weights))"

section \<open>Risk analytics: \<open>analytics/risk.py\<close>\<close>

subsection \<open>The array operations the risk analyzer calls\<close>


definition np_var_ddof1 :: "real list \<Rightarrow> npfloat" where
  \<comment> \<open>\<open>np.var(xs, ddof=1)\<close>: \<open>nan\<close> below two observations\<close>
  "np_var_ddof1 xs =
     (if length xs < 2 then None
      else (let m = sum_list xs / real (length xs)
            in Some (sum_list (map (\<lambda>x. (x - m)\<^sup>2) xs) / real (length xs - 1))))"


definition np_cov01 :: "real list \<Rightarrow> real list \<Rightarrow> error + npfloat" where
  \<comment> \<open>\<open>np.cov(xs, ys)[0, 1]\<close>: stacking arrays of different lengths raises \<open>ValueError\<close>;
      below two observations the entry is \<open>nan\<close>\<close>
  "np_cov01 xs ys =
     (if length xs \<noteq> length ys then Inl ValueError
      else if length xs < 2 then Inr None
      else (let mx = sum_list xs / real (length xs);
                my = sum_list ys / real (length ys)
            in Inr (Some (sum_list (map2 (\<lambda>x y. (x - mx) * (y - my)) xs ys)
                          / real (length xs - 1)))))"

definition np_div :: "npfloat \<Rightarrow> npfloat \<Rightarrow> npfloat" where
  \<comment> \<open>float division in numpy: no exception; a zero divisor gives an infinity or \<open>nan\<close>\<close>
  "np_div a b =
     (case (a, b) of
        (Some x, Some y) \<Rightarrow> (if y = 0 then None else Some (x / y))
      | _ \<Rightarrow> None)"

definition np_diff :: "real list \<Rightarrow> real list" where
  \<comment> \<open>\<open>np.diff\<close>: \<open>out[i] = a[i+1] - a[i]\<close>\<close>
  "np_diff xs = map2 (\<lambda>a b. b - a) xs (tl xs)"

definition np_log :: "real \<Rightarrow> npfloat" where
  \<comment> \<open>\<open>np.log\<close>: \<open>-inf\<close> at zero and \<open>nan\<close> below, with a warning\<close>
  "np_log x = (if x \<le> 0 then None else Some (ln x))"

definition np_diff_f :: "npfloat list \<Rightarrow> npfloat list" where
  "np_diff_f xs =
     map2 (\<lambda>a b. case (a, b) of (Some x, Some y) \<Rightarrow> Some (y - x) | _ \<Rightarrow> None) xs (tl xs)"

definition np_divide :: "real list \<Rightarrow> real list \<Rightarrow> error + npfloat list" where
  \<comment> \<open>elementwise \<open>/\<close> of two one-dimensional arrays, with numpy's broadcasting of a
      one-element array; other shape mismatches raise \<open>ValueError\<close>\<close>
  "np_divide xs ys =
     (if length xs = length ys then Inr (map2 (\<lambda>x y. np_div (Some x) (Some y)) xs ys)
      else if length xs = 1 then Inr (map (\<lambda>y. np_div (Some (hd xs)) (Some y)) ys)
      else if length ys = 1 then Inr (map (\<lambda>x. np_div (Some x) (Some (hd ys))) xs)
      else Inl ValueError)"


subsection \<open>\<open>RiskAnalyzer\<close>\<close>

definition calculate_returns :: "real list \<Rightarrow> string \<Rightarrow> error + npfloat list" where
  "calculate_returns prices method =
     (if method = ''log'' then Inr (np_diff_f (map np_log prices))
      else np_divide (np_diff prices) (butlast prices))"



definition calculate_beta :: "real list \<Rightarrow> real list \<Rightarrow> error + npfloat" where
  "calculate_beta returns benchmark_returns =
     (let (rs, bs) =
            (if length returns \<noteq> length benchmark_returns
             then (let min_len = min (length returns) (length benchmark_returns)
                   in (take min_len returns, take min_len benchmark_returns))
             else (returns, benchmark_returns))
      in case np_cov01 rs bs of
           Inl e \<Rightarrow> Inl e
         | Inr covariance \<Rightarrow>
             (let benchmark_variance = np_var_ddof1 bs
              in if benchmark_variance = Some 0 then Inr (Some 0)
                 else Inr (np_div covariance benchmark_variance)))"

section \<open>Portfolio optimization: \<open>analytics/optimization.py\<close>\<close>

subsection \<open>Linear algebra on arrays\<close>

definition dot :: "real list \<Rightarrow> real list \<Rightarrow> real" where
  "dot xs ys = sum_list (map2 (*) xs ys)"

definition np_dot :: "real list \<Rightarrow> real list \<Rightarrow> error + real" where
  \<comment> \<open>\<open>np.dot\<close> of two vectors: lengths that differ raise \<open>ValueError\<close>\<close>
  "np_dot xs ys = (if length xs = length ys then Inr (dot xs ys) else Inl ValueError)"

definition mat_vec :: "real list list \<Rightarrow> real list \<Rightarrow> error + real list" where
  \<comment> \<open>\<open>np.dot(matrix, vector)\<close>, the matrix a list of rows: each row must be as long as the
      vector\<close>
  "mat_vec m v =
     (if list_all (\<lambda>row. length row = length v) m then Inr (map (\<lambda>row. dot row v) m)
      else Inl ValueError)"

definition quad_form :: "real list list \<Rightarrow> real list \<Rightarrow> error + real" where
  \<comment> \<open>\<open>np.dot(w.T, np.dot(cov, w))\<close>\<close>
  "quad_form cov w = (case mat_vec cov w of Inl e \<Rightarrow> Inl e | Inr cw \<Rightarrow> np_dot w cw)"

definition np_sqrt :: "real \<Rightarrow> npfloat" where
  \<comment> \<open>\<open>np.sqrt\<close>: \<open>nan\<close> below zero\<close>
  "np_sqrt v = (if v < 0 then None else Some (sqrt v))"



definition np_linspace :: "real \<Rightarrow> real \<Rightarrow> int \<Rightarrow> error + real list" where
  \<comment> \<open>\<open>np.linspace(start, stop, num)\<close>: \<open>num\<close> evenly spaced values, the last one \<open>stop\<close>;
      a negative \<open>num\<close> raises \<open>ValueError\<close>\<close>
  "np_linspace start stop num =
     (if num < 0 then Inl ValueError
      else if num = 0 then Inr []
      else if num = 1 then Inr [start]
      else Inr (map (\<lambda>i. start + real i * ((stop - start) / real (nat num - 1)))
                  [0 ..< nat num]))"

subsection \<open>Objectives, constraints and results\<close>

datatype OptimizationObjective =
  MAX_SHARPE | MIN_VARIANCE | MAX_RETURN | RISK_PARITY | TARGET_RETURN | TARGET_VOLATILITY

record OptimizationConstraints =
  min_weight :: real
  max_weight :: real
  max_sector_weight :: "real option"
  max_factor_exposure :: "(string, real) dict option"
  target_return :: "real option"
  target_volatility :: "real option"
  long_only :: bool
  max_turnover :: "real option"
  min_positions :: "int option"
  max_positions :: "int option"
  custom_constraints :: "unit list"

definition default_constraints :: OptimizationConstraints where
  \<comment> \<open>\<open>OptimizationConstraints()\<close>\<close>
  "default_constraints =
     \<lparr>min_weight = 0, max_weight = 1, max_sector_weight = None, max_factor_exposure = None,
      target_return = None, target_volatility = None, long_only = True, max_turnover = None,
      min_positions = None, max_positions = None, custom_constraints = []\<rparr>"

record OptimizationResult =
  weights :: "(string, real) dict"
  expected_return :: real
  expected_volatility :: npfloat
  sharpe_ratio :: npfloat
  success :: bool
  message :: string
  iterations :: nat

definition truthy_float :: "real option \<Rightarrow> bool" where
  \<comment> \<open>Python truth value of an optional float: \<open>None\<close> and \<open>0.0\<close> are false\<close>
  "truthy_float v = (case v of None \<Rightarrow> False | Some r \<Rightarrow> r \<noteq> 0)"

text \<open>
  The program handed to \<open>scipy.optimize.minimize\<close>. The objective and the constraint
  functions are closures over the expected returns, the covariance matrix and the risk-free
  rate; the model names each closure by a constructor and keeps what it closes over in the
  program record. Every constraint has type \<open>eq\<close>.
\<close>

datatype obj_func = neg_sharpe | portfolio_variance | neg_return

datatype opt_constraint = sum_to_one | return_eq real | volatility_eq real

record nlp =
  nlp_obj_func :: obj_func
  nlp_init_weights :: "real list"
  nlp_bounds :: "(real \<times> real) list"
  nlp_constraints :: "opt_constraint list"
  nlp_expected_returns :: "real list"
  nlp_cov_matrix :: "real list list"
  nlp_risk_free_rate :: real
  nlp_maxiter :: nat
  nlp_ftol :: real

record solver_result =
  res_x :: "real list"
  res_success :: bool
  res_message :: string
  res_nit :: nat

type_synonym solver = "nlp \<Rightarrow> error + solver_result"

definition quad :: "real list list \<Rightarrow> real list \<Rightarrow> real" where
  "quad cov w = dot w (map (\<lambda>row. dot row w) cov)"

definition obj_value :: "nlp \<Rightarrow> real list \<Rightarrow> npfloat" where
  \<comment> \<open>the bodies of \<open>neg_sharpe\<close>, \<open>portfolio_variance\<close> and \<open>neg_return\<close>\<close>
  "obj_value p w =
     (case nlp_obj_func p of
        neg_sharpe \<Rightarrow>
          (let ret = dot w (nlp_expected_returns p);
               vol = np_sqrt (quad (nlp_cov_matrix p) w)
           in if vol = Some 0 then Some 0
              else np_div (Some (- (ret - nlp_risk_free_rate p))) vol)
      | portfolio_variance \<Rightarrow> Some (quad (nlp_cov_matrix p) w)
      | neg_return \<Rightarrow> Some (- dot w (nlp_expected_returns p)))"

definition constraint_value :: "nlp \<Rightarrow> opt_constraint \<Rightarrow> real list \<Rightarrow> npfloat" where
  \<comment> \<open>the bodies of the constraint lambdas; a feasible point makes each zero\<close>
  "constraint_value p c w =
     (case c of
        sum_to_one \<Rightarrow> Some (sum_list w - 1)
      | return_eq t \<Rightarrow> Some (dot w (nlp_expected_returns p) - t)
      | volatility_eq t \<Rightarrow> map_option (\<lambda>v. v - t) (np_sqrt (quad (nlp_cov_matrix p) w)))"

subsection \<open>\<open>PortfolioOptimizer\<close>\<close>

definition calculate_portfolio_stats ::
  "real \<Rightarrow> real list \<Rightarrow> real list \<Rightarrow> real list list \<Rightarrow> error + real \<times> npfloat \<times> npfloat" where
  "calculate_portfolio_stats risk_free_rate w expected_returns cov_matrix =
     (case np_dot w expected_returns of
        Inl e \<Rightarrow> Inl e
      | Inr portfolio_ret \<Rightarrow>
          (case quad_form cov_matrix w of
             Inl e \<Rightarrow> Inl e
           | Inr v \<Rightarrow>
               (let portfolio_vol = np_sqrt v;
                    sharpe = (if portfolio_vol = Some 0 then Some 0
                              else np_div (Some (portfolio_ret - risk_free_rate))
                                     portfolio_vol)
                in Inr (portfolio_ret, portfolio_vol, sharpe))))"

definition build_bounds :: "OptimizationConstraints \<Rightarrow> nat \<Rightarrow> (real \<times> real) list" where
  "build_bounds cons n_assets =
     (if long_only cons then replicate n_assets (max 0 (min_weight cons), max_weight cons)
      else replicate n_assets (min_weight cons, max_weight cons))"

definition build_constraints ::
  "OptimizationObjective \<Rightarrow> OptimizationConstraints \<Rightarrow> opt_constraint list" where
  "build_constraints objective cons =
     [sum_to_one]
     @ (if objective = TARGET_RETURN \<and> truthy_float (target_return cons)
        then [return_eq (the (target_return cons))] else [])
     @ (if objective = TARGET_VOLATILITY \<and> truthy_float (target_volatility cons)
        then [volatility_eq (the (target_volatility cons))] else [])"

definition select_objective :: "OptimizationObjective \<Rightarrow> error + obj_func" where
  "select_objective objective =
     (if objective = MAX_SHARPE then Inr neg_sharpe
      else if objective = MIN_VARIANCE then Inr portfolio_variance
      else if objective = MAX_RETURN then Inr neg_return
      else if objective = TARGET_RETURN \<or> objective = TARGET_VOLATILITY
        then Inr portfolio_variance
      else Inl ValueError)"

definition mvo_problem ::
  "real \<Rightarrow> string list \<Rightarrow> real list \<Rightarrow> real list list \<Rightarrow> OptimizationObjective \<Rightarrow>
   OptimizationConstraints option \<Rightarrow> error + nlp" where
  \<comment> \<open>\<open>mean_variance_optimization\<close> up to the call of the solver: \<open>1.0 / n_assets\<close> raises
      for an empty symbol list, an unsupported objective raises \<open>ValueError\<close>\<close>
  "mvo_problem risk_free_rate symbols expected_returns cov_matrix objective constraints =
     (let n_assets = length symbols;
          cons = (case constraints of None \<Rightarrow> default_constraints | Some c \<Rightarrow> c)
      in if n_assets = 0 then Inl ZeroDivisionError
         else (case select_objective objective of
                 Inl e \<Rightarrow> Inl e
               | Inr f \<Rightarrow>
                   Inr \<lparr>nlp_obj_func = f,
                        nlp_init_weights = replicate n_assets (1 / real n_assets),
                        nlp_bounds = build_bounds cons n_assets,
                        nlp_constraints = build_constraints objective cons,
                        nlp_expected_returns = expected_returns,
                        nlp_cov_matrix = cov_matrix,
                        nlp_risk_free_rate = risk_free_rate,
                        nlp_maxiter = 1000, nlp_ftol = 1 / 10 ^ 9\<rparr>))"

definition dict_zip :: "'k list \<Rightarrow> 'v list \<Rightarrow> ('k, 'v) dict" where
  \<comment> \<open>\<open>dict(zip(keys, values))\<close>\<close>
  "dict_zip ks vs = dict_update [] (zip ks vs)"

definition mean_variance_optimization ::
  "solver \<Rightarrow> real \<Rightarrow> string list \<Rightarrow> real list \<Rightarrow> real list list \<Rightarrow> OptimizationObjective \<Rightarrow>
   OptimizationConstraints option \<Rightarrow> error + OptimizationResult" where
  "mean_variance_optimization minimize risk_free_rate symbols expected_returns cov_matrix
       objective constraints =
     (case mvo_problem risk_free_rate symbols expected_returns cov_matrix objective
             constraints of
        Inl e \<Rightarrow> Inl e
      | Inr p \<Rightarrow>
          (case minimize p of
             Inl e \<Rightarrow> Inl e
           | Inr result \<Rightarrow>
               (if res_success result then
                  (case calculate_portfolio_stats risk_free_rate (res_x result)
                          expected_returns cov_matrix of
                     Inl e \<Rightarrow> Inl e
                   | Inr (exp_ret, exp_vol, sharpe) \<Rightarrow>
                       Inr \<lparr>weights = dict_zip symbols (res_x result),
                            expected_return = exp_ret, expected_volatility = exp_vol,
                            sharpe_ratio = sharpe, success = True,
                            message = ''Optimization successful'',
                            iterations = res_nit result\<rparr>)
                else
                  Inr \<lparr>weights = dict_zip symbols (nlp_init_weights p),
                       expected_return = 0, expected_volatility = Some 0,
                       sharpe_ratio = Some 0, success = False,
                       message = res_message result,
                       iterations = res_nit result\<rparr>)))"

definition frontier_constraints ::
  "OptimizationConstraints option \<Rightarrow> real \<Rightarrow> OptimizationConstraints" where
  \<comment> \<open>the constraints of one frontier point: a fresh record that copies the weight bounds
      and \<open>long_only\<close>, then sets the target return\<close>
  "frontier_constraints constraints target =
     (case constraints of
        None \<Rightarrow> default_constraints
      | Some c \<Rightarrow> default_constraints\<lparr>min_weight := min_weight c, max_weight := max_weight c,
                                      long_only := long_only c\<rparr>)
     \<lparr>target_return := Some target\<rparr>"

fun frontier_loop ::
  "solver \<Rightarrow> real \<Rightarrow> string list \<Rightarrow> real list \<Rightarrow> real list list \<Rightarrow>
   OptimizationConstraints option \<Rightarrow> real list \<Rightarrow> OptimizationResult list \<Rightarrow>
   error + OptimizationResult list" where
  "frontier_loop minimize rf symbols mu cov constraints [] frontier = Inr frontier"
| "frontier_loop minimize rf symbols mu cov constraints (target # rest) frontier =
     (case mean_variance_optimization minimize rf symbols mu cov TARGET_RETURN
             (Some (frontier_constraints constraints target)) of
        Inl e \<Rightarrow> Inl e
      | Inr result \<Rightarrow>
          frontier_loop minimize rf symbols mu cov constraints rest
            (if success result then frontier @ [result] else frontier))"

definition efficient_frontier ::
  "solver \<Rightarrow> real \<Rightarrow> string list \<Rightarrow> real list \<Rightarrow> real list list \<Rightarrow> int \<Rightarrow>
   OptimizationConstraints option \<Rightarrow> error + OptimizationResult list" where
  "efficient_frontier minimize rf symbols expected_returns cov_matrix n_points constraints =
     (case mean_variance_optimization minimize rf symbols expected_returns cov_matrix
             MIN_VARIANCE constraints of
        Inl e \<Rightarrow> Inl e
      | Inr min_ret_result \<Rightarrow>
          (case mean_variance_optimization minimize rf symbols expected_returns cov_matrix
                  MAX_RETURN constraints of
             Inl e \<Rightarrow> Inl e
           | Inr max_ret_result \<Rightarrow>
               (let min_ret = expected_return min_ret_result;
                    max_ret = expected_return max_ret_result
                in if min_ret \<ge> max_ret then Inr [min_ret_result]
                   else (case np_linspace min_ret max_ret n_points of
                           Inl e \<Rightarrow> Inl e
                         | Inr target_returns \<Rightarrow>
                             frontier_loop minimize rf symbols expected_returns cov_matrix
                               constraints target_returns []))))"



definition stalled_solver :: solver where
  \<comment> \<open>a stand-in for a run of the solver that stops at its iteration cap\<close>
  "stalled_solver p =
     Inr \<lparr>res_x = nlp_init_weights p, res_success = False,
          res_message = ''Iteration limit reached'', res_nit = nlp_maxiter p\<rparr>"

subsection \<open>What a solution of a program is, and one example\<close>

definition feasible :: "nlp \<Rightarrow> real list \<Rightarrow> bool" where
  \<comment> \<open>a point within the bounds at which every equality constraint is zero\<close>
  "feasible p w \<longleftrightarrow>
     list_all2 (\<lambda>(lo, hi) wi. lo \<le> wi \<and> wi \<le> hi) (nlp_bounds p) w
     \<and> list_all (\<lambda>c. constraint_value p c w = Some 0) (nlp_constraints p)"

definition minimizer :: "nlp \<Rightarrow> real list \<Rightarrow> bool" where
  \<comment> \<open>a feasible point whose objective value no feasible point undercuts\<close>
  "minimizer p w \<longleftrightarrow>
     feasible p w
     \<and> (\<forall>y. feasible p y \<longrightarrow>
            (\<exists>a b. obj_value p w = Some a \<and> obj_value p y = Some b \<and> a \<le> b))"

text \<open>
  Two assets \<open>A\<close> and \<open>B\<close> with expected returns \<open>-0.5\<close> and \<open>0.0\<close> and the identity as
  covariance matrix. \<open>example_solver\<close> returns the exact solution of each program the
  optimizer builds for them under the default constraints.
\<close>

definition example_symbols :: "string list" where
  "example_symbols = [''A'', ''B'']"

definition example_returns :: "real list" where
  "example_returns = [- (1 / 2), 0]"

definition example_cov :: "real list list" where
  "example_cov = [[1, 0], [0, 1]]"

definition solved :: "real list \<Rightarrow> error + solver_result" where
  "solved w = Inr \<lparr>res_x = w, res_success = True,
                   res_message = ''Optimization terminated successfully'', res_nit = 1\<rparr>"

definition infeasible :: "nlp \<Rightarrow> error + solver_result" where
  "infeasible p = Inr \<lparr>res_x = nlp_init_weights p, res_success = False,
                       res_message = ''Positive directional derivative for linesearch'',
                       res_nit = 1\<rparr>"

definition example_solver :: solver where
  "example_solver p =
     (case nlp_constraints p of
        [sum_to_one] \<Rightarrow>
          (case nlp_obj_func p of
             neg_return \<Rightarrow> solved [0, 1]
           | portfolio_variance \<Rightarrow> solved [1 / 2, 1 / 2]
           | neg_sharpe \<Rightarrow> infeasible p)
      | [sum_to_one, return_eq t] \<Rightarrow>
          (if - (1 / 2) \<le> t \<and> t \<le> 0 then solved [- 2 * t, 1 + 2 * t] else infeasible p)
      | _ \<Rightarrow> infeasible p)"

definition honours_return_constraint :: "solver \<Rightarrow> bool" where
  \<comment> \<open>a solver whose successful results meet every return constraint of the program\<close>
  "honours_return_constraint minimize \<longleftrightarrow>
     (\<forall>p r t. minimize p = Inr r \<and> res_success r \<and> return_eq t \<in> set (nlp_constraints p)
        \<longrightarrow> dot (res_x r) (nlp_expected_returns p) = t)"


section \<open>Properties of the stress engine\<close>

lemma impact_loop_total:
  "fst (impact_loop f ps (t, im)) = t + sum_list (map (\<lambda>(s, x). f x) ps)"
  by (induction ps arbitrary: t im) (auto simp: algebra_simps)

lemma impact_loop_lookup:
  "map_of (snd (impact_loop f ps (t, im))) s =
     (case map_of (rev ps) s of None \<Rightarrow> map_of im s | Some x \<Rightarrow> Some (f x))"
  by (induction ps arbitrary: t im)
     (auto simp: update_conv' map_add_def split: option.splits)

lemma map_of_rev_distinct:
  "distinct (map fst xs) \<Longrightarrow> map_of (rev xs) = map_of xs"
  by (subst map_of_inject_set) (simp_all add: rev_map [symmetric])

lemma get_scenario_GFC_2008:
  "get_scenario init_engine ''GFC_2008'' =
     Some (mk_scenario ''Global Financial Crisis 2008'' HISTORICAL
       ''Sept-Nov 2008 financial crisis period'' (- 0.45) (- 200) 500 [] [] 60
       (Some (2008, 9, 15)) (Some (2008, 11, 20)))"
  by (simp add: get_scenario_def init_engine_def load_default_scenarios_def dict_update_def
      HISTORICAL_SCENARIOS_def HYPOTHETICAL_SCENARIOS_def)

text \<open>
  Claim C8. For a position dict (keys distinct, as in any Python dict) and an equity shock,
  \<open>calculate_equity_impact\<close> returns as total the sum of \<open>value * beta * shock\<close> over the
  positions, and stores exactly that product under each position's symbol (and nothing under
  any other key). The catalog entry \<open>GFC_2008\<close> has equity shock \<open>-0.45\<close>; applied to
  \<open>{"AAPL": (100000, 1.2)}\<close> it gives the equity impact \<open>-54000\<close>, from
  \<open>calculate_equity_impact\<close> and from \<open>run_scenario\<close> alike.
\<close>

theorem calculate_equity_impact_formula:
  assumes "distinct (map fst positions)"
  shows "fst (calculate_equity_impact positions shock)
           = sum_list (map (\<lambda>(s, v, b). v * b * shock) positions)
       \<and> map_of (snd (calculate_equity_impact positions shock)) s
           = map_option (\<lambda>(v, b). v * b * shock) (map_of positions s)
       \<and> equity_shock (the (get_scenario init_engine ''GFC_2008'')) = - 0.45
       \<and> calculate_equity_impact [(''AAPL'', (100000, 1.2))]
            (equity_shock (the (get_scenario init_engine ''GFC_2008'')))
           = (- 54000, [(''AAPL'', - 54000)])
       \<and> equity_impact (run_scenario (the (get_scenario init_engine ''GFC_2008''))
            (Some [(''AAPL'', (100000, 1.2))]) None None None) = - 54000"
proof -
  have rv: "map_of (rev positions) = map_of positions"
    using assms by (rule map_of_rev_distinct)
  have 1: "fst (calculate_equity_impact positions shock)
           = sum_list (map (\<lambda>(s, v, b). v * b * shock) positions)"
    unfolding calculate_equity_impact_def impact_loop_total
    by (simp add: case_prod_unfold)
  have 2: "map_of (snd (calculate_equity_impact positions shock)) s
           = map_option (\<lambda>(v, b). v * b * shock) (map_of positions s)"
    unfolding calculate_equity_impact_def impact_loop_lookup rv
    by (simp split: option.splits)
  have 3: "equity_shock (the (get_scenario init_engine ''GFC_2008'')) = - 0.45"
    by (simp add: get_scenario_GFC_2008 mk_scenario_def)
  have 4: "calculate_equity_impact [(''AAPL'', (100000, 1.2))] (- 0.45)
           = (- 54000, [(''AAPL'', - 54000)])"
    by (simp add: calculate_equity_impact_def)
  have 5: "equity_impact (run_scenario (the (get_scenario init_engine ''GFC_2008''))
            (Some [(''AAPL'', (100000, 1.2))]) None None None) = - 54000"
    by (simp add: run_scenario_def truthy_dict_def 3 calculate_equity_impact_def
        dict_update_def)
  from 1 2 3 4 5 show ?thesis by simp
qed

theorem calculate_equity_impact_formula_witness:
  "distinct (map fst
     [(''AAPL'', (100000::real, 1.2::real)), (''MSFT'', (80000, 1.1)), (''JPM'', (50000, 1.4))])
   \<and> fst (calculate_equity_impact
        [(''AAPL'', (100000, 1.2)), (''MSFT'', (80000, 1.1)), (''JPM'', (50000, 1.4))] (- 0.20))
      = - 55600
   \<and> map_of (snd (calculate_equity_impact
        [(''AAPL'', (100000, 1.2)), (''MSFT'', (80000, 1.1)), (''JPM'', (50000, 1.4))] (- 0.20)))
        ''AAPL'' = Some (- 24000)"
proof -
  have d: "distinct (map fst
     [(''AAPL'', (100000::real, 1.2::real)), (''MSFT'', (80000, 1.1)), (''JPM'', (50000, 1.4))])"
    by simp
  show ?thesis
    using d calculate_equity_impact_formula [OF d, of "- 0.20" "''AAPL''"]
    by simp
qed

text \<open>
  Claim C10. After \<open>add_scenario(key, scenario)\<close>, \<open>get_scenario(key)\<close> returns that scenario
  and every other key reads as before. When the key was already in the catalog, its entry is
  replaced: the keys of the catalog stay the same, in the same order, and the old scenario is
  no longer reachable; this holds for the predefined key \<open>GFC_2008\<close> of a fresh engine too.
\<close>

theorem add_scenario_frame:
  "get_scenario (add_scenario e key sc) key = Some sc
   \<and> (\<forall>k. k \<noteq> key \<longrightarrow> get_scenario (add_scenario e key sc) k = get_scenario e k)
   \<and> (get_scenario e key \<noteq> None \<longrightarrow>
        list_scenarios (add_scenario e key sc) None = list_scenarios e None)
   \<and> get_scenario (add_scenario init_engine ''GFC_2008'' sc) ''GFC_2008'' = Some sc"
  by (auto simp: get_scenario_def add_scenario_def update_conv' list_scenarios_def update_keys
      map_of_eq_None_iff)

theorem add_scenario_frame_witness:
  "get_scenario (add_scenario init_engine ''GFC_2008'' custom_scenario) ''GFC_2008''
     = Some custom_scenario
   \<and> get_scenario init_engine ''GFC_2008'' \<noteq> None
   \<and> get_scenario init_engine ''GFC_2008'' \<noteq> Some custom_scenario
   \<and> ''COVID_2020'' \<noteq> ''GFC_2008''
   \<and> get_scenario (add_scenario init_engine ''GFC_2008'' custom_scenario) ''COVID_2020''
     = get_scenario init_engine ''COVID_2020''
   \<and> list_scenarios (add_scenario init_engine ''GFC_2008'' custom_scenario) None
     = list_scenarios init_engine None"
  using add_scenario_frame [of init_engine "''GFC_2008''" custom_scenario]
  by (simp add: get_scenario_GFC_2008 custom_scenario_def mk_scenario_def)

section \<open>Properties of the Brinson-Fachler attribution\<close>

lemma brinson_sectors:
  "map sector (calculate_brinson_fachler_attribution pw bw pr br) = all_sectors pw bw"
  by (simp add: calculate_brinson_fachler_attribution_def Let_def o_def)

lemma total_benchmark_return_set:
  "total_benchmark_return pw bw br =
     (\<Sum>s \<in> fst ` set pw \<union> fst ` set bw. dict_get bw s 0 * dict_get br s 0)"
  by (simp add: total_benchmark_return_def all_sectors_def sum_list_distinct_conv_sum_set)

text \<open>
  Claim C6. \<open>calculate_brinson_fachler_attribution\<close> returns one record for each sector in
  the union of the keys of the two weight dicts, and no other. In each record the four inputs
  are the dict entries of its sector (\<open>0\<close> when missing), the allocation effect is
  \<open>(pw - bw) * (br - totalBenchmarkReturn)\<close> with the total benchmark return summed over that
  union, the selection effect is \<open>bw * (pr - br)\<close>, the interaction effect is
  \<open>(pw - bw) * (pr - br)\<close>, and the total effect is exactly the sum of the three.
\<close>

theorem brinson_fachler_effects:
  "distinct (map sector (calculate_brinson_fachler_attribution pw bw pr br))
   \<and> set (map sector (calculate_brinson_fachler_attribution pw bw pr br))
       = fst ` set pw \<union> fst ` set bw
   \<and> (\<forall>r \<in> set (calculate_brinson_fachler_attribution pw bw pr br).
         portfolio_weight r = dict_get pw (sector r) 0
       \<and> benchmark_weight r = dict_get bw (sector r) 0
       \<and> portfolio_return r = dict_get pr (sector r) 0
       \<and> benchmark_return r = dict_get br (sector r) 0
       \<and> allocation_effect r = (portfolio_weight r - benchmark_weight r)
           * (benchmark_return r
              - (\<Sum>s \<in> fst ` set pw \<union> fst ` set bw. dict_get bw s 0 * dict_get br s 0))
       \<and> selection_effect r = benchmark_weight r * (portfolio_return r - benchmark_return r)
       \<and> interaction_effect r
           = (portfolio_weight r - benchmark_weight r) * (portfolio_return r - benchmark_return r)
       \<and> total_effect r = allocation_effect r + selection_effect r + interaction_effect r)"
proof -
  have "distinct (map sector (calculate_brinson_fachler_attribution pw bw pr br))"
    by (simp add: brinson_sectors all_sectors_def)
  moreover have "set (map sector (calculate_brinson_fachler_attribution pw bw pr br))
       = fst ` set pw \<union> fst ` set bw"
    by (simp add: brinson_sectors all_sectors_def)
  moreover have "\<forall>r \<in> set (calculate_brinson_fachler_attribution pw bw pr br).
         portfolio_weight r = dict_get pw (sector r) 0
       \<and> benchmark_weight r = dict_get bw (sector r) 0
       \<and> portfolio_return r = dict_get pr (sector r) 0
       \<and> benchmark_return r = dict_get br (sector r) 0
       \<and> allocation_effect r = (portfolio_weight r - benchmark_weight r)
           * (benchmark_return r
              - (\<Sum>s \<in> fst ` set pw \<union> fst ` set bw. dict_get bw s 0 * dict_get br s 0))
       \<and> selection_effect r = benchmark_weight r * (portfolio_return r - benchmark_return r)
       \<and> interaction_effect r
           = (portfolio_weight r - benchmark_weight r) * (portfolio_return r - benchmark_return r)
       \<and> total_effect r = allocation_effect r + selection_effect r + interaction_effect r"
    unfolding total_benchmark_return_set [symmetric]
    by (auto simp: calculate_brinson_fachler_attribution_def Let_def)
  ultimately show ?thesis by blast
qed

theorem brinson_fachler_effects_witness:
  "map sector (calculate_brinson_fachler_attribution
        [(''Tech'', 0.5), (''Fin'', 0.5)] [(''Tech'', 0.25), (''Energy'', 0.75)]
        [(''Tech'', 0.5), (''Fin'', 0.25)] [(''Tech'', 0.25), (''Energy'', 0.5)])
     = [''Fin'', ''Tech'', ''Energy'']
   \<and> \<lparr>sector = ''Energy'', portfolio_weight = 0, benchmark_weight = 0.75,
        portfolio_return = 0, benchmark_return = 0.5,
        allocation_effect = - (3 / 64), selection_effect = - (3 / 8),
        interaction_effect = 3 / 8, total_effect = - (3 / 64)\<rparr>
       \<in> set (calculate_brinson_fachler_attribution
        [(''Tech'', 0.5), (''Fin'', 0.5)] [(''Tech'', 0.25), (''Energy'', 0.75)]
        [(''Tech'', 0.5), (''Fin'', 0.25)] [(''Tech'', 0.25), (''Energy'', 0.5)])
   \<and> (\<Sum>s \<in> fst ` set [(''Tech'', 0.5::real), (''Fin'', 0.5)]
            \<union> fst ` set [(''Tech'', 0.25::real), (''Energy'', 0.75)].
          dict_get [(''Tech'', 0.25), (''Energy'', 0.75)] s 0
          * dict_get [(''Tech'', 0.25), (''Energy'', 0.5)] s (0::real)) = 7 / 16"
  using brinson_fachler_effects [of
        "[(''Tech'', 0.5), (''Fin'', 0.5)]" "[(''Tech'', 0.25), (''Energy'', 0.75)]"
        "[(''Tech'', 0.5), (''Fin'', 0.25)]" "[(''Tech'', 0.25), (''Energy'', 0.5)]"]
  by (simp add: calculate_brinson_fachler_attribution_def all_sectors_def
      total_benchmark_return_def dict_get_def Let_def)

section \<open>Properties of the risk analyzer\<close>




lemma calculate_beta_example:
  "calculate_beta [1, 2, 4, 100] [1, 3, 2] = Inr (Some (1 / 2))"
  by (simp add: calculate_beta_def np_cov01_def np_var_ddof1_def np_div_def Let_def
      power2_eq_square)

lemma length_np_diff: "length (np_diff xs) = length xs - 1"
  by (simp add: np_diff_def)

lemma nth_np_diff: "i < length xs - 1 \<Longrightarrow> np_diff xs ! i = xs ! Suc i - xs ! i"
  by (simp add: np_diff_def nth_tl)

lemma simple_returns_value:
  "np_divide (np_diff prices) (butlast prices)
     = Inr (map (\<lambda>i. np_div (Some (prices ! Suc i - prices ! i)) (Some (prices ! i)))
              [0 ..< length prices - 1])"
  by (auto simp: np_divide_def length_np_diff nth_np_diff nth_butlast
      intro!: nth_equalityI)

text \<open>
  Claim C9. For every price array and every method string other than \<open>"log"\<close>,
  \<open>calculate_returns\<close> raises nothing and returns the simple returns
  \<open>diff(prices) / prices[:-1]\<close>, whose entry \<open>i\<close> is \<open>(prices[i+1] - prices[i]) / prices[i]\<close>:
  an unknown method string gives what \<open>"simple"\<close> gives.
\<close>

theorem calculate_returns_unknown_method:
  assumes "method \<noteq> ''log''"
  shows "calculate_returns prices method
           = Inr (map (\<lambda>i. np_div (Some (prices ! Suc i - prices ! i)) (Some (prices ! i)))
                    [0 ..< length prices - 1])
       \<and> calculate_returns prices method = np_divide (np_diff prices) (butlast prices)
       \<and> calculate_returns prices method = calculate_returns prices ''simple''"
  using assms by (simp add: calculate_returns_def simple_returns_value)

theorem calculate_returns_unknown_method_witness:
  "''LOG'' \<noteq> ''log''
   \<and> calculate_returns [100, 110, 99] ''LOG'' = Inr [Some (1 / 10), Some (- (1 / 10))]
   \<and> calculate_returns [100, 110, 99] ''LOG'' = calculate_returns [100, 110, 99] ''simple''"
proof -
  have m: "''LOG'' \<noteq> ''log''" by simp
  have v: "map (\<lambda>i. np_div (Some ([100, 110, 99::real] ! Suc i - [100, 110, 99] ! i))
                          (Some ([100, 110, 99] ! i))) [0 ..< length [100, 110, 99::real] - 1]
           = [Some (1 / 10), Some (- (1 / 10))]"
    by (simp add: np_div_def upt_rec)
  from calculate_returns_unknown_method [OF m, of "[100, 110, 99]"] m show ?thesis
    unfolding v by blast
qed







section \<open>Properties of the optimizer\<close>







lemma map_of_dict_update:
  "map_of (dict_update d kvs) k =
     (case map_of (rev kvs) k of None \<Rightarrow> map_of d k | Some v \<Rightarrow> Some v)"
  unfolding dict_update_def
  by (induction kvs arbitrary: d)
     (auto simp: update_conv' map_add_def split: option.splits)

lemma zip_replicate_length: "zip ks (replicate (length ks) v) = map (\<lambda>k. (k, v)) ks"
  by (induction ks) simp_all

lemma map_of_const_pairs:
  "map_of (map (\<lambda>k. (k, v)) ks) k = (if k \<in> set ks then Some v else None)"
  by (induction ks) simp_all

lemma equal_weight_lookup:
  "map_of (dict_zip symbols (replicate (length symbols) v)) s =
     (if s \<in> set symbols then Some v else None)"
  by (simp add: dict_zip_def map_of_dict_update zip_replicate_length rev_map
      map_of_const_pairs)

lemma mvo_problem_reached:
  "(\<exists>p. mvo_problem rf symbols mu cov objective constraints = Inr p)
     \<longleftrightarrow> symbols \<noteq> [] \<and> objective \<noteq> RISK_PARITY"
  by (cases objective) (auto simp: mvo_problem_def select_objective_def Let_def)

lemma mvo_problem_init_weights:
  "mvo_problem rf symbols mu cov objective constraints = Inr p \<Longrightarrow>
     nlp_init_weights p = replicate (length symbols) (1 / real (length symbols))"
  by (auto simp: mvo_problem_def Let_def split: if_splits sum.splits)

text \<open>
  Claim C3. In every call of \<open>mean_variance_optimization\<close> that reaches the solver (the
  symbol list is not empty and the objective is supported) and in which the solver returns
  without success, the function raises nothing: it returns the result whose weights give
  \<open>1/N\<close> to every symbol, the equal-weight starting point, whose success flag is false and
  whose message is the solver's.
\<close>

theorem mvo_solver_failure:
  assumes "mvo_problem rf symbols mu cov objective constraints = Inr p"
    and "minimize p = Inr r" and "\<not> res_success r"
  shows "mean_variance_optimization minimize rf symbols mu cov objective constraints
           = Inr \<lparr>weights = dict_zip symbols
                               (replicate (length symbols) (1 / real (length symbols))),
                  expected_return = 0, expected_volatility = Some 0, sharpe_ratio = Some 0,
                  success = False, message = res_message r, iterations = res_nit r\<rparr>
       \<and> map_of (dict_zip symbols (replicate (length symbols) (1 / real (length symbols)))) s
           = (if s \<in> set symbols then Some (1 / real (length symbols)) else None)
       \<and> symbols \<noteq> [] \<and> objective \<noteq> RISK_PARITY"
proof -
  from assms(1) have "symbols \<noteq> [] \<and> objective \<noteq> RISK_PARITY"
    using mvo_problem_reached [of rf symbols mu cov objective constraints] by blast
  moreover have "mean_variance_optimization minimize rf symbols mu cov objective constraints
           = Inr \<lparr>weights = dict_zip symbols
                               (replicate (length symbols) (1 / real (length symbols))),
                  expected_return = 0, expected_volatility = Some 0, sharpe_ratio = Some 0,
                  success = False, message = res_message r, iterations = res_nit r\<rparr>"
    using assms mvo_problem_init_weights [OF assms(1)]
    by (simp add: mean_variance_optimization_def)
  ultimately show ?thesis by (simp add: equal_weight_lookup)
qed

theorem mvo_solver_failure_witness:
  "(\<exists>p. mvo_problem (5 / 100) [''AAPL'', ''MSFT''] [1 / 10, 2 / 10] [[1, 0], [0, 1]]
           MAX_SHARPE None = Inr p
        \<and> stalled_solver p
            = Inr \<lparr>res_x = [1 / 2, 1 / 2], res_success = False,
                   res_message = ''Iteration limit reached'', res_nit = 1000\<rparr>)
   \<and> mean_variance_optimization stalled_solver (5 / 100) [''AAPL'', ''MSFT''] [1 / 10, 2 / 10]
        [[1, 0], [0, 1]] MAX_SHARPE None
       = Inr \<lparr>weights = [(''AAPL'', 1 / 2), (''MSFT'', 1 / 2)],
              expected_return = 0, expected_volatility = Some 0, sharpe_ratio = Some 0,
              success = False, message = ''Iteration limit reached'', iterations = 1000\<rparr>"
proof -
  define p where "p = \<lparr>nlp_obj_func = neg_sharpe, nlp_init_weights = [1 / 2, 1 / 2],
      nlp_bounds = [(0, 1), (0, 1)], nlp_constraints = [sum_to_one],
      nlp_expected_returns = [1 / 10, 2 / 10], nlp_cov_matrix = [[1, 0], [0, 1]],
      nlp_risk_free_rate = 5 / 100, nlp_maxiter = 1000, nlp_ftol = 1 / 10 ^ 9\<rparr>"
  define r where "r = \<lparr>res_x = [1 / 2, 1 / 2], res_success = False,
                   res_message = ''Iteration limit reached'', res_nit = 1000\<rparr>"
  have 1: "mvo_problem (5 / 100) [''AAPL'', ''MSFT''] [1 / 10, 2 / 10] [[1, 0], [0, 1]]
           MAX_SHARPE None = Inr p"
    by (simp add: mvo_problem_def select_objective_def build_bounds_def build_constraints_def
        default_constraints_def p_def numeral_2_eq_2)
  have 2: "stalled_solver p = Inr r"
    by (simp add: stalled_solver_def p_def r_def)
  have 3: "\<not> res_success r" by (simp add: r_def)
  from mvo_solver_failure [where minimize = stalled_solver and s = "''AAPL''", OF 1 2 3] 1 2
  show ?thesis
    by (simp add: r_def dict_zip_def dict_update_def numeral_2_eq_2)
qed

lemma build_constraints_target_return:
  "t \<noteq> 0 \<Longrightarrow>
     build_constraints TARGET_RETURN (c\<lparr>target_return := Some t\<rparr>) = [sum_to_one, return_eq t]"
  by (simp add: build_constraints_def truthy_float_def)

text \<open>
  Claim C2 fails for the target return \<open>0.0\<close>. The test \<open>constraints.target_return\<close> is a
  truth test, and \<open>0.0\<close> is false: for the objective \<open>TARGET_RETURN\<close> with target \<open>0.0\<close> the only
  constraint built is the budget constraint, the program handed to the solver is the one of
  \<open>MIN_VARIANCE\<close>, and so is the result, for every solver and every input. For any other
  target \<open>t\<close> the constraint list is the budget constraint followed by the return constraint
  for \<open>t\<close> (\<open>build_constraints_target_return\<close>).
\<close>

theorem target_return_zero_dropped:
  "build_constraints TARGET_RETURN (c\<lparr>target_return := Some 0\<rparr>) = [sum_to_one]
   \<and> mvo_problem rf symbols mu cov TARGET_RETURN (Some (c\<lparr>target_return := Some 0\<rparr>))
       = mvo_problem rf symbols mu cov MIN_VARIANCE (Some c)
   \<and> mean_variance_optimization minimize rf symbols mu cov TARGET_RETURN
        (Some (c\<lparr>target_return := Some 0\<rparr>))
       = mean_variance_optimization minimize rf symbols mu cov MIN_VARIANCE (Some c)"
proof -
  have 1: "build_constraints TARGET_RETURN (c\<lparr>target_return := Some 0\<rparr>) = [sum_to_one]"
    by (simp add: build_constraints_def truthy_float_def)
  have 2: "mvo_problem rf symbols mu cov TARGET_RETURN (Some (c\<lparr>target_return := Some 0\<rparr>))
       = mvo_problem rf symbols mu cov MIN_VARIANCE (Some c)"
    by (simp add: mvo_problem_def build_constraints_def build_bounds_def truthy_float_def
        select_objective_def Let_def)
  have 3: "mean_variance_optimization minimize rf symbols mu cov TARGET_RETURN
        (Some (c\<lparr>target_return := Some 0\<rparr>))
       = mean_variance_optimization minimize rf symbols mu cov MIN_VARIANCE (Some c)"
    unfolding mean_variance_optimization_def 2 by (rule refl)
  from 1 2 3 show ?thesis by blast
qed

section \<open>The efficient frontier of the example\<close>

lemma half_le_sum_squares:
  fixes a b :: real
  assumes "a + b = 1"
  shows "1 / 2 \<le> a * a + b * b"
proof -
  have "0 \<le> (a - b) * (a - b)" by simp
  moreover have "(a + b) * (a + b) = 1" using assms by simp
  ultimately show ?thesis by (simp add: algebra_simps)
qed

lemma minimizerI:
  assumes "feasible p w" and "obj_value p w = Some v"
    and "\<And>y. feasible p y \<Longrightarrow> \<exists>b. obj_value p y = Some b \<and> v \<le> b"
  shows "minimizer p w"
  unfolding minimizer_def using assms by blast

lemma feasible_unit_box:
  assumes "nlp_bounds p = [(0, 1), (0, 1)]"
  shows "feasible p w \<longleftrightarrow>
           (\<exists>a b. w = [a, b] \<and> 0 \<le> a \<and> a \<le> 1 \<and> 0 \<le> b \<and> b \<le> 1
                  \<and> list_all (\<lambda>c. constraint_value p c [a, b] = Some 0) (nlp_constraints p))"
  by (auto simp: feasible_def assms list_all2_Cons1)

lemma budget_only_minimizer:
  assumes "nlp_obj_func p = portfolio_variance" "nlp_bounds p = [(0, 1), (0, 1)]"
    "nlp_constraints p = [sum_to_one]" "nlp_cov_matrix p = [[1, 0], [0, 1]]"
  shows "minimizer p [1 / 2, 1 / 2]"
proof (rule minimizerI)
  have "[1 / 2, 1 / 2] = [1 / 2, 1 / 2::real] \<and> (0::real) \<le> 1 / 2 \<and> (1 / 2::real) \<le> 1
        \<and> (0::real) \<le> 1 / 2 \<and> (1 / 2::real) \<le> 1
        \<and> list_all (\<lambda>c. constraint_value p c [1 / 2, 1 / 2] = Some 0) (nlp_constraints p)"
    by (simp add: assms constraint_value_def)
  then show "feasible p [1 / 2, 1 / 2]"
    unfolding feasible_unit_box [OF assms(2)] by blast
  show "obj_value p [1 / 2, 1 / 2] = Some (1 / 2)"
    by (simp add: obj_value_def assms quad_def dot_def)
  fix y assume "feasible p y"
  then obtain a b where y: "y = [a, b]" and s: "a + b = 1"
    unfolding feasible_unit_box [OF assms(2)]
    by (auto simp: assms constraint_value_def)
  have "obj_value p y = Some (a * a + b * b)"
    by (simp add: obj_value_def assms quad_def dot_def y)
  with half_le_sum_squares [OF s] show "\<exists>v. obj_value p y = Some v \<and> 1 / 2 \<le> v" by blast
qed

lemma example_problem_min_variance:
  assumes "mvo_problem rf example_symbols example_returns example_cov MIN_VARIANCE None
             = Inr p"
  shows "example_solver p = solved [1 / 2, 1 / 2] \<and> minimizer p [1 / 2, 1 / 2]"
proof -
  from assms have p: "nlp_obj_func p = portfolio_variance" "nlp_bounds p = [(0, 1), (0, 1)]"
    "nlp_constraints p = [sum_to_one]" "nlp_cov_matrix p = [[1, 0], [0, 1]]"
    by (auto simp: mvo_problem_def select_objective_def build_constraints_def
        build_bounds_def default_constraints_def example_symbols_def example_cov_def
        numeral_2_eq_2)
  from budget_only_minimizer [OF p] show ?thesis by (simp add: example_solver_def p)
qed

lemma example_problem_max_return:
  assumes "mvo_problem rf example_symbols example_returns example_cov MAX_RETURN None
             = Inr p"
  shows "example_solver p = solved [0, 1] \<and> minimizer p [0, 1]"
proof -
  from assms have p: "nlp_obj_func p = neg_return" "nlp_bounds p = [(0, 1), (0, 1)]"
    "nlp_constraints p = [sum_to_one]" "nlp_expected_returns p = [- (1 / 2), 0]"
    by (auto simp: mvo_problem_def select_objective_def build_constraints_def
        build_bounds_def default_constraints_def example_symbols_def example_returns_def
        numeral_2_eq_2)
  have "minimizer p [0, 1]"
  proof (rule minimizerI)
    show "feasible p [0, 1]"
      unfolding feasible_unit_box [OF p(2)] by (simp add: p constraint_value_def)
    show "obj_value p [0, 1] = Some 0"
      by (simp add: obj_value_def p dot_def)
    fix y assume "feasible p y"
    then obtain a b where y: "y = [a, b]" and a: "0 \<le> a"
      unfolding feasible_unit_box [OF p(2)] by auto
    have "obj_value p y = Some (a / 2)"
      by (simp add: obj_value_def p dot_def y)
    moreover from a have "0 \<le> a / 2" by simp
    ultimately show "\<exists>v. obj_value p y = Some v \<and> 0 \<le> v" by blast
  qed
  then show ?thesis by (simp add: example_solver_def p)
qed

lemma example_problem_target:
  assumes "mvo_problem rf example_symbols example_returns example_cov TARGET_RETURN
             (Some (frontier_constraints None t)) = Inr p"
  shows "(t = 0 \<longrightarrow> example_solver p = solved [1 / 2, 1 / 2] \<and> minimizer p [1 / 2, 1 / 2])
       \<and> (t \<noteq> 0 \<and> - (1 / 2) \<le> t \<and> t \<le> 0 \<longrightarrow>
            example_solver p = solved [- 2 * t, 1 + 2 * t]
            \<and> minimizer p [- 2 * t, 1 + 2 * t])
       \<and> (t < - (1 / 2) \<or> 0 < t \<longrightarrow>
            example_solver p = infeasible p \<and> (\<forall>w. \<not> feasible p w))"
proof -
  from assms have p: "nlp_obj_func p = portfolio_variance" "nlp_bounds p = [(0, 1), (0, 1)]"
    "nlp_constraints p = (if t = 0 then [sum_to_one] else [sum_to_one, return_eq t])"
    "nlp_cov_matrix p = [[1, 0], [0, 1]]" "nlp_expected_returns p = [- (1 / 2), 0]"
    by (auto simp: mvo_problem_def select_objective_def build_constraints_def
        build_bounds_def default_constraints_def example_symbols_def example_cov_def
        example_returns_def frontier_constraints_def truthy_float_def numeral_2_eq_2)
  have 1: "minimizer p [1 / 2, 1 / 2]" if "t = 0"
    using that by (intro budget_only_minimizer) (simp_all add: p)
  have 2: "minimizer p [- 2 * t, 1 + 2 * t]" if t: "t \<noteq> 0" "- (1 / 2) \<le> t" "t \<le> 0"
  proof (rule minimizerI)
    show "feasible p [- 2 * t, 1 + 2 * t]"
      unfolding feasible_unit_box [OF p(2)] using t
      by (simp add: p constraint_value_def dot_def)
    show "obj_value p [- 2 * t, 1 + 2 * t]
            = Some ((- 2 * t) * (- 2 * t) + (1 + 2 * t) * (1 + 2 * t))"
      by (simp add: obj_value_def p quad_def dot_def)
    fix y assume "feasible p y"
    then obtain a b where y: "y = [a, b]" and s: "a + b = 1" and r: "- (a / 2) = t"
      unfolding feasible_unit_box [OF p(2)] using t
      by (auto simp: p constraint_value_def dot_def)
    from s r have "a = - 2 * t" "b = 1 + 2 * t" by simp_all
    then have "obj_value p y = Some ((- 2 * t) * (- 2 * t) + (1 + 2 * t) * (1 + 2 * t))"
      by (simp add: obj_value_def p quad_def dot_def y)
    then show "\<exists>v. obj_value p y = Some v
                 \<and> (- 2 * t) * (- 2 * t) + (1 + 2 * t) * (1 + 2 * t) \<le> v" by simp
  qed
  have 3: "\<not> feasible p w" if "t < - (1 / 2) \<or> 0 < t" for w
    unfolding feasible_unit_box [OF p(2)] using that
    by (auto simp: p constraint_value_def dot_def)
  from 1 2 3 show ?thesis
    by (auto simp: example_solver_def p)
qed

lemma example_min_variance:
  "\<exists>r. mean_variance_optimization example_solver rf example_symbols example_returns
          example_cov MIN_VARIANCE None = Inr r
       \<and> expected_return r = - (1 / 4) \<and> success r"
  by (simp add: mean_variance_optimization_def mvo_problem_def select_objective_def
      build_constraints_def build_bounds_def default_constraints_def example_solver_def
      solved_def example_symbols_def example_returns_def example_cov_def
      calculate_portfolio_stats_def np_dot_def dot_def quad_form_def mat_vec_def Let_def)

lemma example_max_return:
  "\<exists>r. mean_variance_optimization example_solver rf example_symbols example_returns
          example_cov MAX_RETURN None = Inr r
       \<and> expected_return r = 0 \<and> success r"
  by (simp add: mean_variance_optimization_def mvo_problem_def select_objective_def
      build_constraints_def build_bounds_def default_constraints_def example_solver_def
      solved_def example_symbols_def example_returns_def example_cov_def
      calculate_portfolio_stats_def np_dot_def dot_def quad_form_def mat_vec_def Let_def)

lemma example_target_nonzero:
  assumes "- (1 / 2) \<le> t" "t < 0"
  shows "\<exists>r. mean_variance_optimization example_solver rf example_symbols example_returns
          example_cov TARGET_RETURN (Some (frontier_constraints None t)) = Inr r
       \<and> expected_return r = t \<and> success r"
  using assms
  by (simp add: mean_variance_optimization_def mvo_problem_def select_objective_def
      build_constraints_def build_bounds_def default_constraints_def example_solver_def
      solved_def example_symbols_def example_returns_def example_cov_def truthy_float_def
      frontier_constraints_def
      calculate_portfolio_stats_def np_dot_def dot_def quad_form_def mat_vec_def Let_def)

lemma example_target_zero:
  "\<exists>r. mean_variance_optimization example_solver rf example_symbols example_returns
          example_cov TARGET_RETURN (Some (frontier_constraints None 0)) = Inr r
       \<and> expected_return r = - (1 / 4) \<and> success r"
  by (simp add: mean_variance_optimization_def mvo_problem_def select_objective_def
      build_constraints_def build_bounds_def default_constraints_def example_solver_def
      solved_def example_symbols_def example_returns_def example_cov_def truthy_float_def
      frontier_constraints_def
      calculate_portfolio_stats_def np_dot_def dot_def quad_form_def mat_vec_def Let_def)

lemma example_linspace: "np_linspace (- (1 / 4)) 0 3 = Inr [- (1 / 4), - (1 / 8), 0]"
  by (simp add: np_linspace_def upt_rec)

text \<open>
  Claim C4 fails on the example. The minimum-variance portfolio \<open>(0.5, 0.5)\<close> has expected
  return \<open>-0.25\<close> and the maximum-return portfolio \<open>(0, 1)\<close> has \<open>0.0\<close>, so three frontier
  points are solved for the targets \<open>-0.25\<close>, \<open>-0.125\<close> and \<open>0.0\<close>. The last target is false
  in the truth test of \<open>mean_variance_optimization\<close>, its return constraint is dropped, and
  the exact solution of the program that is left is the minimum-variance portfolio again:
  the expected returns of the frontier are \<open>-0.25\<close>, \<open>-0.125\<close>, \<open>-0.25\<close>, in that order.
  The solver used returns the exact solution of every program it is given here
  (\<open>example_problem_min_variance\<close>, \<open>example_problem_max_return\<close>, \<open>example_problem_target\<close>).
\<close>

theorem efficient_frontier_dips:
  "\<exists>fr. efficient_frontier example_solver (5 / 100) example_symbols example_returns
           example_cov 3 None = Inr fr
        \<and> map expected_return fr = [- (1 / 4), - (1 / 8), - (1 / 4)]
        \<and> map success fr = [True, True, True]
        \<and> \<not> sorted (map expected_return fr)"
proof -
  obtain r0 where r0: "mean_variance_optimization example_solver (5 / 100) example_symbols
      example_returns example_cov MIN_VARIANCE None = Inr r0"
      "expected_return r0 = - (1 / 4)"
    using example_min_variance [of "5 / 100"] by blast
  obtain r1 where r1: "mean_variance_optimization example_solver (5 / 100) example_symbols
      example_returns example_cov MAX_RETURN None = Inr r1"
      "expected_return r1 = 0"
    using example_max_return [of "5 / 100"] by blast
  obtain a where a: "mean_variance_optimization example_solver (5 / 100) example_symbols
      example_returns example_cov TARGET_RETURN (Some (frontier_constraints None (- (1 / 4))))
      = Inr a" "expected_return a = - (1 / 4)" "success a"
    using example_target_nonzero [of "- (1 / 4)" "5 / 100"] by auto
  obtain b where b: "mean_variance_optimization example_solver (5 / 100) example_symbols
      example_returns example_cov TARGET_RETURN (Some (frontier_constraints None (- (1 / 8))))
      = Inr b" "expected_return b = - (1 / 8)" "success b"
    using example_target_nonzero [of "- (1 / 8)" "5 / 100"] by auto
  obtain c where c: "mean_variance_optimization example_solver (5 / 100) example_symbols
      example_returns example_cov TARGET_RETURN (Some (frontier_constraints None 0))
      = Inr c" "expected_return c = - (1 / 4)" "success c"
    using example_target_zero [of "5 / 100"] by blast
  have "efficient_frontier example_solver (5 / 100) example_symbols example_returns
           example_cov 3 None = Inr [a, b, c]"
    using r0 r1 a b c by (simp add: efficient_frontier_def example_linspace)
  with a b c show ?thesis by simp
qed

text \<open>
  With a solver that honours the return constraint, a frontier point solved for a target
  other than \<open>0.0\<close> has that target as expected return, and the frontier is non-decreasing
  as long as no grid target is \<open>0.0\<close>.
\<close>

lemma target_return_point:
  assumes h: "honours_return_constraint minimize" and t: "t \<noteq> 0"
    and m: "mean_variance_optimization minimize rf symbols mu cov TARGET_RETURN
              (Some (frontier_constraints constraints t)) = Inr res"
    and s: "success res"
  shows "expected_return res = t"
proof -
  from m obtain p where p: "mvo_problem rf symbols mu cov TARGET_RETURN
      (Some (frontier_constraints constraints t)) = Inr p"
    by (auto simp: mean_variance_optimization_def split: sum.splits)
  from p t have c: "return_eq t \<in> set (nlp_constraints p)"
    and mu: "nlp_expected_returns p = mu"
    by (auto simp: mvo_problem_def Let_def build_constraints_def truthy_float_def
        frontier_constraints_def split: if_splits sum.splits option.splits)
  from m p obtain r where r: "minimize p = Inr r"
    by (auto simp: mean_variance_optimization_def split: sum.splits)
  from m p r s have ok: "res_success r"
    by (auto simp: mean_variance_optimization_def split: sum.splits if_splits)
  from m p r ok obtain v q where st: "calculate_portfolio_stats rf (res_x r) mu cov
      = Inr (expected_return res, v, q)"
    by (auto simp: mean_variance_optimization_def split: sum.splits)
  then have "expected_return res = dot (res_x r) mu"
    by (auto simp: calculate_portfolio_stats_def np_dot_def Let_def
        split: sum.splits if_splits)
  also have "\<dots> = t"
    using h r ok c mu unfolding honours_return_constraint_def by blast
  finally show ?thesis .
qed

lemma frontier_loop_sorted:
  assumes "honours_return_constraint minimize"
    and "sorted targets" and "0 \<notin> set targets"
    and "sorted (map expected_return acc)"
    and "\<And>r t. r \<in> set acc \<Longrightarrow> t \<in> set targets \<Longrightarrow> expected_return r \<le> t"
    and "frontier_loop minimize rf symbols mu cov constraints targets acc = Inr fr"
  shows "sorted (map expected_return fr)"
  using assms(2-)
proof (induction targets arbitrary: acc)
  case Nil
  then show ?case by simp
next
  case (Cons t ts)
  from Cons.prems(5) obtain res where res:
    "mean_variance_optimization minimize rf symbols mu cov TARGET_RETURN
       (Some (frontier_constraints constraints t)) = Inr res"
    and rest: "frontier_loop minimize rf symbols mu cov constraints ts
                 (if success res then acc @ [res] else acc) = Inr fr"
    by (auto split: sum.splits)
  from Cons.prems(2) have t0: "t \<noteq> 0" and ts0: "0 \<notin> set ts" by auto
  from Cons.prems(1) have sts: "sorted ts" and tle: "\<And>u. u \<in> set ts \<Longrightarrow> t \<le> u" by auto
  show ?case
  proof (cases "success res")
    case True
    have e: "expected_return res = t"
      using assms(1) t0 res True by (rule target_return_point)
    have "sorted (map expected_return (acc @ [res]))"
      using Cons.prems(3,4) e by (auto simp: sorted_append)
    moreover have "expected_return r \<le> u" if "r \<in> set (acc @ [res])" "u \<in> set ts" for r u
      using that Cons.prems(4) [of r u] tle [of u] e by auto
    ultimately show ?thesis
      using Cons.IH [of "acc @ [res]"] sts ts0 rest True by simp
  next
    case False
    have "expected_return r \<le> u" if "r \<in> set acc" "u \<in> set ts" for r u
      using that Cons.prems(4) [of r u] by simp
    then show ?thesis
      using Cons.IH [of acc] sts ts0 rest False Cons.prems(3) by simp
  qed
qed

lemma np_linspace_sorted:
  assumes "lo \<le> hi" "np_linspace lo hi n = Inr ts"
  shows "sorted ts"
proof -
  define d where "d = (hi - lo) / real (nat n - 1)"
  have d0: "0 \<le> d" using assms(1) by (simp add: d_def)
  have "sorted (map (\<lambda>i. lo + real i * d) [0 ..< nat n])"
    using d0 by (auto simp: sorted_iff_nth_mono intro!: mult_right_mono)
  with assms(2) show ?thesis
    unfolding d_def by (auto simp: np_linspace_def split: if_splits)
qed

lemma efficient_frontier_sorted:
  assumes "honours_return_constraint minimize"
    and "mean_variance_optimization minimize rf symbols mu cov MIN_VARIANCE constraints
           = Inr lo"
    and "mean_variance_optimization minimize rf symbols mu cov MAX_RETURN constraints
           = Inr hi"
    and "\<And>ts. np_linspace (expected_return lo) (expected_return hi) n = Inr ts
           \<Longrightarrow> 0 \<notin> set ts"
    and "efficient_frontier minimize rf symbols mu cov n constraints = Inr fr"
  shows "sorted (map expected_return fr)"
proof (cases "expected_return hi \<le> expected_return lo")
  case True
  with assms(2,3,5) show ?thesis by (auto simp: efficient_frontier_def)
next
  case False
  with assms(2,3,5) obtain ts where
    ts: "np_linspace (expected_return lo) (expected_return hi) n = Inr ts"
    and fl: "frontier_loop minimize rf symbols mu cov constraints ts [] = Inr fr"
    by (auto simp: efficient_frontier_def split: sum.splits)
  from False have "expected_return lo \<le> expected_return hi" by simp
  then have s: "sorted ts" using ts by (rule np_linspace_sorted)
  have z: "0 \<notin> set ts" using ts by (rule assms(4))
  show ?thesis
    by (rule frontier_loop_sorted [OF assms(1) s z _ _ fl]) simp_all
qed

end
